theory Spec2Isabelle
  imports Main
begin

section \<open>The HTTP interface used by the CORS middleware\<close>

text \<open>
  The middleware of \<^verbatim>\<open>CorsMiddleware\<close> touches three things of \<^verbatim>\<open>net/http\<close>:
  the method of the request, the header map of the response writer and
  \<^verbatim>\<open>WriteHeader\<close>. A header map is Go's \<^verbatim>\<open>map[string][]string\<close>.
  The response writer keeps the status code once it has been written: as in
  \<^verbatim>\<open>net/http\<close>, only the first \<^verbatim>\<open>WriteHeader\<close> of a response takes effect.
\<close>

type_synonym header = "string \<rightharpoonup> string list"

record request =
  Method :: string
  URL :: string
  req_Header :: header
  Body :: string

record response_writer =
  Header :: header
  status :: "nat option"
  written :: string

definition MethodOptions :: string where
  "MethodOptions = ''OPTIONS''"

definition StatusOK :: nat where
  "StatusOK = 200"

text \<open>
  \<^verbatim>\<open>Header().Set(key, value)\<close> replaces the values of \<^verbatim>\<open>key\<close> by the one value.
  The five keys the middleware sets are already in canonical MIME form, so the
  canonicalisation of the key by \<^verbatim>\<open>Set\<close> is the identity on them.
\<close>

definition Header_Set :: "response_writer \<Rightarrow> string \<Rightarrow> string \<Rightarrow> response_writer" where
  "Header_Set writer key v = writer\<lparr>Header := (Header writer)(key \<mapsto> [v])\<rparr>"

definition WriteHeader :: "response_writer \<Rightarrow> nat \<Rightarrow> response_writer" where
  "WriteHeader writer code =
     (case status writer of
        None \<Rightarrow> writer\<lparr>status := Some code\<rparr>
      | Some _ \<Rightarrow> writer)"

text \<open>
  An \<^verbatim>\<open>http.Handler\<close> is its \<^verbatim>\<open>ServeHTTP\<close> method: it acts on the response writer
  and on whatever state of its own the handler has (\<open>'s\<close>: counters, upstream
  connections, anything a handler may change when it is invoked).
\<close>

type_synonym 's http_handler = "'s \<times> response_writer \<Rightarrow> request \<Rightarrow> 's \<times> response_writer"

section \<open>CorsMiddleware\<close>

definition cors_headers :: "response_writer \<Rightarrow> response_writer" where
  "cors_headers writer =
     (let writer = Header_Set writer ''Access-Control-Allow-Origin'' ''*'';
          writer = Header_Set writer ''Access-Control-Allow-Headers''
                     ''Content-Type,AccessToken,X-CSRF-Token,Authorization,Token,X-Token,X-User-Id'';
          writer = Header_Set writer ''Access-Control-Allow-Methods'' ''POST,GET,OPTIONS,DELETE,PUT'';
          writer = Header_Set writer ''Access-Control-Expose-Headers''
                     ''Content-Length,Access-Control-Allow-Origin,Access-Control-Allow-Headers,Content-Type'';
          writer = Header_Set writer ''Access-Control-Allow-Credentials'' ''true''
      in writer)"

definition CorsMiddleware :: "'s http_handler \<Rightarrow> 's http_handler" where
  "CorsMiddleware handler = (\<lambda>(s, writer) request.
     (let writer = cors_headers writer
      in if Method request = MethodOptions
         then (s, WriteHeader writer StatusOK)
         else handler (s, writer) request))"

text \<open>The five header lines of the middleware, as (key, values) pairs.\<close>

definition cors_header_lines :: "(string \<times> string list) list" where
  "cors_header_lines =
     [(''Access-Control-Allow-Origin'', [''*'']),
      (''Access-Control-Allow-Headers'',
         [''Content-Type,AccessToken,X-CSRF-Token,Authorization,Token,X-Token,X-User-Id'']),
      (''Access-Control-Allow-Methods'', [''POST,GET,OPTIONS,DELETE,PUT'']),
      (''Access-Control-Expose-Headers'',
         [''Content-Length,Access-Control-Allow-Origin,Access-Control-Allow-Headers,Content-Type'']),
      (''Access-Control-Allow-Credentials'', [''true''])]"

definition has_cors_headers :: "response_writer \<Rightarrow> bool" where
  "has_cors_headers writer = list_all (\<lambda>(k, vs). Header writer k = Some vs) cors_header_lines"

text \<open>A handler stub that counts its invocations and records the requests it was given.\<close>

definition counting_handler :: "(nat \<times> request list) http_handler" where
  "counting_handler = (\<lambda>((n, seen), writer) request.
     ((Suc n, seen @ [request]), writer\<lparr>written := written writer @ ''ok''\<rparr>))"

text \<open>A handler that deletes one header of the response, as \<^verbatim>\<open>Header().Del\<close> does.\<close>

definition deleting_handler :: "unit http_handler" where
  "deleting_handler = (\<lambda>(s, writer) request.
     (s, writer\<lparr>Header := (Header writer)(''Access-Control-Allow-Origin'' := None)\<rparr>))"

definition new_writer :: response_writer where
  "new_writer = \<lparr>Header = Map.empty, status = None, written = []\<rparr>"

definition options_request :: request where
  "options_request = \<lparr>Method = ''OPTIONS'', URL = ''/'', req_Header = Map.empty, Body = []\<rparr>"

definition get_request :: request where
  "get_request = \<lparr>Method = ''GET'', URL = ''/'', req_Header = Map.empty, Body = []\<rparr>"


section \<open>The strategy interfaces of the gateway\<close>

text \<open>
  Resolvers, routers and handlers come from the go-micro library; this program only
  builds their option lists and calls their constructors. The instances are therefore
  type parameters (\<open>'rs\<close> a resolver, \<open>'rt\<close> a router, \<open>'srv\<close> a server), and a
  handler is the HTTP handler it implements. The options this program creates:
  \<^verbatim>\<open>resolver.WithNamespace(resolver.StaticNamespace(arg))\<close>, \<^verbatim>\<open>resolver.WithHandler(arg)\<close>,
  \<^verbatim>\<open>router.WithResolver(r)\<close> and \<^verbatim>\<open>handler.WithRouter(r)\<close>.
\<close>

datatype namespace_fn = StaticNamespace string

text \<open>
  What the Go runtime does with a signal that no channel is registered for: it ends the
  process, or the process goes on running.
\<close>

datatype signal_action = Terminates | NoAction

datatype resolver_option = WithNamespace namespace_fn | WithHandler string

datatype 'rs router_option = WithResolver 'rs

datatype 'rt handler_option = WithRouter 'rt

type_synonym go_error = string

type_synonym 'rs resolver_factory = "resolver_option list \<Rightarrow> 'rs"

type_synonym ('rs, 'rt) router_factory = "'rs router_option list \<Rightarrow> 'rt"

type_synonym ('rt, 's) handler_factory = "'rt handler_option list \<Rightarrow> 's http_handler"

text \<open>
  The functions of the imported packages that \<^verbatim>\<open>cmd.go\<close> refers to. Their code is not
  part of this repository, so every definition below takes them as a parameter.
  \<^verbatim>\<open>Start\<close> and \<^verbatim>\<open>Stop\<close> return the error (or nil) and the server as they leave it.
  \<^verbatim>\<open>default_action\<close> is the runtime's treatment of a signal (by its number) that the
  program has not asked to be notified of; it depends on the platform and on how the
  process was started.
\<close>

record ('rs, 'rt, 's, 'srv) library =
  registry_NewRouter :: "('rs, 'rt) router_factory"
  static_NewRouter :: "('rs, 'rt) router_factory"
  grpc_NewResolver :: "'rs resolver_factory"
  host_NewResolver :: "'rs resolver_factory"
  path_NewResolver :: "'rs resolver_factory"
  vpath_NewResolver :: "'rs resolver_factory"
  api_NewHandler :: "('rt, 's) handler_factory"
  event_NewHandler :: "('rt, 's) handler_factory"
  http_NewHandler :: "('rt, 's) handler_factory"
  rpc_NewHandler :: "('rt, 's) handler_factory"
  web_NewHandler :: "('rt, 's) handler_factory"
  httpServer_NewServer :: "string \<Rightarrow> 'srv"
  Handle :: "'srv \<Rightarrow> string \<Rightarrow> 's http_handler \<Rightarrow> 'srv"
  Start :: "'srv \<Rightarrow> go_error option \<times> 'srv"
  Stop :: "'srv \<Rightarrow> go_error option \<times> 'srv"
  default_action :: "int \<Rightarrow> signal_action"

section \<open>Options, flags and the command\<close>

record ('rs, 'rt, 's, 'srv) Options =
  Name :: string
  Description :: string
  Version :: string
  Server :: "'srv option"
  Routers :: "string \<rightharpoonup> ('rs, 'rt) router_factory"
  Resolvers :: "string \<rightharpoonup> 'rs resolver_factory"
  Handlers :: "string \<rightharpoonup> ('rt, 's) handler_factory"

type_synonym ('rs, 'rt, 's, 'srv) Option =
  "('rs, 'rt, 's, 'srv) Options \<Rightarrow> ('rs, 'rt, 's, 'srv) Options"

record StringFlag =
  flag_Name :: string
  flag_Value :: string
  flag_Usage :: string

record App =
  app_Name :: string
  app_Version :: string
  app_Usage :: string
  app_Flags :: "StringFlag list"

record ('rs, 'rt, 's, 'srv) cmd =
  opts :: "('rs, 'rt, 's, 'srv) Options"
  app :: App

text \<open>
  A \<^verbatim>\<open>cli.Context\<close> is read through \<^verbatim>\<open>ctx.String(name)\<close> only. Of the \<^verbatim>\<open>cli.App\<close> the
  fields that \<^verbatim>\<open>newCmd\<close> assigns data to are kept; its \<^verbatim>\<open>Before\<close> and \<^verbatim>\<open>Action\<close> fields
  hold the two methods defined below.
\<close>

type_synonym Context = "string \<Rightarrow> string"

definition DefaultFlags :: "StringFlag list" where
  "DefaultFlags =
     [\<lparr>flag_Name = ''server_address'', flag_Value = '':8080'',
        flag_Usage = ''--server_address=[server_address]''\<rparr>,
      \<lparr>flag_Name = ''namespace'', flag_Value = ''go.micro'',
        flag_Usage = ''--namespace=[namespace]''\<rparr>,
      \<lparr>flag_Name = ''router'', flag_Value = ''registry'', flag_Usage = ''--router=[router]''\<rparr>,
      \<lparr>flag_Name = ''resolver'', flag_Value = ''vpath'', flag_Usage = ''--resolver=[resolver]''\<rparr>,
      \<lparr>flag_Name = ''handler'', flag_Value = ''rpc'', flag_Usage = ''--handler''\<rparr>]"

definition DefaultRouters :: "('rs, 'rt, 's, 'srv) library \<Rightarrow> string \<rightharpoonup> ('rs, 'rt) router_factory" where
  "DefaultRouters lib =
     [''registry'' \<mapsto> (\<lambda>option. registry_NewRouter lib option),
      ''static'' \<mapsto> (\<lambda>option. static_NewRouter lib option)]"

definition DefaultResolvers :: "('rs, 'rt, 's, 'srv) library \<Rightarrow> string \<rightharpoonup> 'rs resolver_factory" where
  "DefaultResolvers lib =
     [''grpc'' \<mapsto> (\<lambda>option. grpc_NewResolver lib option),
      ''host'' \<mapsto> (\<lambda>option. host_NewResolver lib option),
      ''path'' \<mapsto> (\<lambda>option. path_NewResolver lib option),
      ''vpath'' \<mapsto> (\<lambda>option. vpath_NewResolver lib option)]"

definition DefaultHandlers :: "('rs, 'rt, 's, 'srv) library \<Rightarrow> string \<rightharpoonup> ('rt, 's) handler_factory" where
  "DefaultHandlers lib =
     [''api'' \<mapsto> (\<lambda>option. api_NewHandler lib option),
      ''event'' \<mapsto> (\<lambda>option. event_NewHandler lib option),
      ''http'' \<mapsto> (\<lambda>option. http_NewHandler lib option),
      ''rpc'' \<mapsto> (\<lambda>option. rpc_NewHandler lib option),
      ''web'' \<mapsto> (\<lambda>option. web_NewHandler lib option)]"

definition newCmd ::
  "('rs, 'rt, 's, 'srv) library \<Rightarrow> ('rs, 'rt, 's, 'srv) Option list \<Rightarrow> ('rs, 'rt, 's, 'srv) cmd" where
  "newCmd lib os =
     (let options = \<lparr>Name = [], Description = [], Version = [], Server = None,
                      Routers = DefaultRouters lib, Resolvers = DefaultResolvers lib,
                      Handlers = DefaultHandlers lib\<rparr>;
          options = fold (\<lambda>opt options. opt options) os options;
          options = (if length (Description options) = 0
                     then options\<lparr>Description := ''a go-micro-api service''\<rparr>
                     else options)
      in \<lparr>opts = options,
          app = \<lparr>app_Name = Name options, app_Version = Version options,
                  app_Usage = Description options, app_Flags = DefaultFlags\<rparr>\<rparr>)"

section \<open>The process and its environment\<close>

text \<open>
  What the two actions do beyond returning a value is recorded in a world: the lines
  written through the standard logger, the calls made to the library (with their
  arguments and, for constructors, the instance returned), and the signals that the
  operating system delivers to the process once \<^verbatim>\<open>signal.Notify\<close> has registered the
  channel, in the order of their delivery.
\<close>

type_synonym signal = int

definition SIGINT :: signal where
  "SIGINT = 2"

definition SIGTERM :: signal where
  "SIGTERM = 15"

datatype ('rs, 'rt, 's, 'srv) call =
    NewResolver_call "resolver_option list" 'rs
  | NewRouter_call "'rs router_option list" 'rt
  | NewHandler_call "'rt handler_option list" "'s http_handler"
  | NewServer_call string 'srv
  | Handle_call string "'s http_handler"
  | Start_call
  | Notify_call "signal list"
  | Receive_call signal
  | Stop_call

record ('rs, 'rt, 's, 'srv) world =
  log_output :: "string list"
  calls :: "('rs, 'rt, 's, 'srv) call list"
  pending :: "signal list"

text \<open>
  A call either returns, or the process exits with a status (\<^verbatim>\<open>os.Exit\<close>), or panics, or
  blocks forever, or the process is ended by a signal.
\<close>

datatype 'a outcome = Returned 'a | Exited int | Panicked | Blocked | Killed signal

definition called ::
  "('rs, 'rt, 's, 'srv) call \<Rightarrow> ('rs, 'rt, 's, 'srv) world \<Rightarrow> ('rs, 'rt, 's, 'srv) world" where
  "called x w = w\<lparr>calls := calls w @ [x]\<rparr>"

text \<open>
  \<^verbatim>\<open>log.Fatalf\<close> writes the formatted message through the standard logger (which puts
  its timestamp before it) and then calls \<^verbatim>\<open>os.Exit(1)\<close>. \<^verbatim>\<open>%v\<close> prints a string
  argument as it is.
\<close>

definition Fatalf ::
  "string \<Rightarrow> ('rs, 'rt, 's, 'srv) world \<Rightarrow> 'a outcome \<times> ('rs, 'rt, 's, 'srv) world" where
  "Fatalf msg w = (Exited 1, w\<lparr>log_output := log_output w @ [msg]\<rparr>)"

section \<open>Before: resolving the configuration and assembling the pipeline\<close>

definition Before ::
  "('rs, 'rt, 's, 'srv) library \<Rightarrow> ('rs, 'rt, 's, 'srv) cmd \<Rightarrow> Context \<Rightarrow>
   ('rs, 'rt, 's, 'srv) world \<Rightarrow>
   (go_error option \<times> ('rs, 'rt, 's, 'srv) cmd) outcome \<times> ('rs, 'rt, 's, 'srv) world" where
  "Before lib c ctx w =
     (let routerOpts = [];
          resolverOpts = [];
          handlerOpts = [];
          newRouter = registry_NewRouter lib;
          newResolver = vpath_NewResolver lib;
          newHandler = rpc_NewHandler lib;
          address = '':8080'';
          newServer = httpServer_NewServer lib;
          address = (let arg = ctx ''server_address''
                     in if length arg > 0 then arg else address);
          resolverOpts = (let arg = ctx ''namespace''
                          in if length arg > 0
                             then resolverOpts @ [WithNamespace (StaticNamespace arg)]
                             else resolverOpts)
      in case (let arg = ctx ''router''
               in if length arg > 0
                  then (case Routers (opts c) arg of
                          Some r \<Rightarrow> Inr r
                        | None \<Rightarrow> Inl (''Router '' @ arg @ '' is not found''))
                  else Inr newRouter) of
           Inl msg \<Rightarrow> Fatalf msg w
         | Inr newRouter \<Rightarrow>
      (case (let arg = ctx ''handler''
             in if length arg > 0
                then (let resolverOpts = resolverOpts @ [WithHandler arg]
                      in case Handlers (opts c) arg of
                           Some h \<Rightarrow> Inr (resolverOpts, h)
                         | None \<Rightarrow> Inl (''Handler '' @ arg @ '' is not found''))
                else Inr (resolverOpts, newHandler)) of
         Inl msg \<Rightarrow> Fatalf msg w
       | Inr (resolverOpts, newHandler) \<Rightarrow>
      (case (let arg = ctx ''resolver''
             in if length arg > 0
                then (case Resolvers (opts c) arg of
                        Some r \<Rightarrow> Inr r
                      | None \<Rightarrow> Inl (''Resolver '' @ arg @ '' is not found''))
                else Inr newResolver) of
         Inl msg \<Rightarrow> Fatalf msg w
       | Inr newResolver \<Rightarrow>
          (let rs = newResolver resolverOpts;
               w = called (NewResolver_call resolverOpts rs) w;
               routerOpts = routerOpts @ [WithResolver rs];
               rt = newRouter routerOpts;
               w = called (NewRouter_call routerOpts rt) w;
               handlerOpts = handlerOpts @ [WithRouter rt];
               hdlr = newHandler handlerOpts;
               w = called (NewHandler_call handlerOpts hdlr) w;
               srv = newServer address;
               w = called (NewServer_call address srv) w;
               srv = Handle lib srv ''/'' (CorsMiddleware hdlr);
               w = called (Handle_call ''/'' (CorsMiddleware hdlr)) w;
               c = c\<lparr>opts := (opts c)\<lparr>Server := Some srv\<rparr>\<rparr>
           in (Returned (None, c), w)))))"

section \<open>Action: start, wait for a signal, stop\<close>

text \<open>
  \<^verbatim>\<open>signal.Notify(quit, sigs...)\<close> relays to the channel the delivered signals that are
  among \<^verbatim>\<open>sigs\<close>, and \<^verbatim>\<open><-quit\<close> returns the first of them; the channel holds one
  signal, so the first one relayed is never dropped. A signal outside \<^verbatim>\<open>sigs\<close> never
  reaches the channel: the runtime applies its default action, which ends the process
  or leaves it waiting. With no signal that does either, the receive never returns.
\<close>

datatype reception = Received signal "signal list" | Killed_by signal "signal list" | Never

fun receive :: "(signal \<Rightarrow> signal_action) \<Rightarrow> signal list \<Rightarrow> signal list \<Rightarrow> reception" where
  "receive dflt sigs [] = Never"
| "receive dflt sigs (s # rest) =
     (if s \<in> set sigs then Received s rest
      else case dflt s of
             Terminates \<Rightarrow> Killed_by s rest
           | NoAction \<Rightarrow> receive dflt sigs rest)"

definition Action ::
  "('rs, 'rt, 's, 'srv) library \<Rightarrow> ('rs, 'rt, 's, 'srv) cmd \<Rightarrow> Context \<Rightarrow>
   ('rs, 'rt, 's, 'srv) world \<Rightarrow>
   (go_error option \<times> ('rs, 'rt, 's, 'srv) cmd) outcome \<times> ('rs, 'rt, 's, 'srv) world" where
  "Action lib c ctx w =
     (case Server (opts c) of
        None \<Rightarrow> (Panicked, w)
      | Some srv \<Rightarrow>
         (let (err, srv) = Start lib srv;
              w = called Start_call w;
              c = c\<lparr>opts := (opts c)\<lparr>Server := Some srv\<rparr>\<rparr>
          in case err of
               Some e \<Rightarrow> (Returned (Some e, c), w)
             | None \<Rightarrow>
                (let w = called (Notify_call [SIGINT, SIGTERM]) w
                 in case receive (default_action lib) [SIGINT, SIGTERM] (pending w) of
                      Never \<Rightarrow> (Blocked, w\<lparr>pending := []\<rparr>)
                    | Killed_by sig rest \<Rightarrow> (Killed sig, w\<lparr>pending := rest\<rparr>)
                    | Received sig rest \<Rightarrow>
                       (let w = (called (Receive_call sig) w)\<lparr>pending := rest\<rparr>;
                            (err, srv) = Stop lib srv;
                            w = called Stop_call w;
                            c = c\<lparr>opts := (opts c)\<lparr>Server := Some srv\<rparr>\<rparr>
                        in case err of
                             Some e \<Rightarrow> (Returned (Some e, c), w)
                           | None \<Rightarrow> (Returned (None, c), w)))))"

section \<open>Vocabulary of the properties\<close>

text \<open>A kind string is unknown to a registry when it is non-empty and has no entry.\<close>

definition unknown_kind :: "(string \<rightharpoonup> 'f) \<Rightarrow> string \<Rightarrow> bool" where
  "unknown_kind registry arg = (length arg > 0 \<and> registry arg = None)"

text \<open>The calls made between two worlds of one run.\<close>

definition new_calls ::
  "('rs, 'rt, 's, 'srv) world \<Rightarrow> ('rs, 'rt, 's, 'srv) world \<Rightarrow> ('rs, 'rt, 's, 'srv) call list" where
  "new_calls w w' = drop (length (calls w)) (calls w')"

definition world0 :: "signal list \<Rightarrow> ('rs, 'rt, 's, 'srv) world" where
  "world0 sigs = \<lparr>log_output = [], calls = [], pending = sigs\<rparr>"

text \<open>
  The value \<^verbatim>\<open>ctx.String(name)\<close> has after a command line that gives each flag at most
  once was parsed: the value given for the flag (possibly empty, as in \<^verbatim>\<open>--router=\<close>),
  else the default of the flag, else the empty string.
\<close>

definition context_of :: "StringFlag list \<Rightarrow> (string \<times> string) list \<Rightarrow> Context" where
  "context_of flags args name =
     (case map_of args name of
        Some v \<Rightarrow> v
      | None \<Rightarrow> (case find (\<lambda>f. flag_Name f = name) flags of
                   Some f \<Rightarrow> flag_Value f
                 | None \<Rightarrow> []))"

text \<open>
  The address and the resolver options that \<^verbatim>\<open>Before\<close> computes from the flags, and the
  factory it selects on one axis when the kind is known.
\<close>

definition address_of :: "Context \<Rightarrow> string" where
  "address_of ctx = (if ctx ''server_address'' = [] then '':8080'' else ctx ''server_address'')"

definition resolver_options_of :: "Context \<Rightarrow> resolver_option list" where
  "resolver_options_of ctx =
     (if ctx ''namespace'' = [] then [] else [WithNamespace (StaticNamespace (ctx ''namespace''))]) @
     (if ctx ''handler'' = [] then [] else [WithHandler (ctx ''handler'')])"

definition chosen :: "'f \<Rightarrow> (string \<rightharpoonup> 'f) \<Rightarrow> string \<Rightarrow> 'f" where
  "chosen dflt registry arg = (if arg = [] then dflt else the (registry arg))"

text \<open>
  A factory is selected on an axis when the kind is empty and it is the built-in one, or
  the kind is not empty and the registry maps it to the factory.
\<close>

definition selects :: "'f \<Rightarrow> (string \<rightharpoonup> 'f) \<Rightarrow> string \<Rightarrow> 'f \<Rightarrow> bool" where
  "selects dflt registry arg f = (if arg = [] then f = dflt else registry arg = Some f)"

text \<open>
  The five calls of lines 190 to 194 of \<^verbatim>\<open>cmd.go\<close>, for an address, resolver options and
  three factories, and the server they leave behind.
\<close>

definition pipeline_calls ::
  "('rs, 'rt, 's, 'srv) library \<Rightarrow> string \<Rightarrow> resolver_option list \<Rightarrow> 'rs resolver_factory \<Rightarrow>
   ('rs, 'rt) router_factory \<Rightarrow> ('rt, 's) handler_factory \<Rightarrow> ('rs, 'rt, 's, 'srv) call list" where
  "pipeline_calls lib address resolverOpts newResolver newRouter newHandler =
     (let rs = newResolver resolverOpts;
          rt = newRouter [WithResolver rs];
          hdlr = newHandler [WithRouter rt]
      in [NewResolver_call resolverOpts rs,
          NewRouter_call [WithResolver rs] rt,
          NewHandler_call [WithRouter rt] hdlr,
          NewServer_call address (httpServer_NewServer lib address),
          Handle_call ''/'' (CorsMiddleware hdlr)])"

definition pipeline_server ::
  "('rs, 'rt, 's, 'srv) library \<Rightarrow> string \<Rightarrow> resolver_option list \<Rightarrow> 'rs resolver_factory \<Rightarrow>
   ('rs, 'rt) router_factory \<Rightarrow> ('rt, 's) handler_factory \<Rightarrow> 'srv" where
  "pipeline_server lib address resolverOpts newResolver newRouter newHandler =
     Handle lib (httpServer_NewServer lib address) ''/''
       (CorsMiddleware (newHandler [WithRouter (newRouter [WithResolver (newResolver resolverOpts)])]))"

text \<open>What a run of \<^verbatim>\<open>Before\<close> leaves behind: the error, the server and the world.\<close>

definition outcome_server ::
  "(go_error option \<times> ('rs, 'rt, 's, 'srv) cmd) outcome \<times> ('rs, 'rt, 's, 'srv) world \<Rightarrow>
   (go_error option \<times> 'srv option) outcome \<times> ('rs, 'rt, 's, 'srv) world" where
  "outcome_server x = (map_outcome (\<lambda>(e, c). (e, Server (opts c))) (fst x), snd x)"

section \<open>Stub strategies and a stub server\<close>

text \<open>
  Stand-ins for the library, used to run the definitions on concrete inputs. A stub
  instance records the kind it was built as and the options it was given; a stub
  handler counts its invocations and writes its kind; the stub server refuses to start
  on an address without a port, as \<^verbatim>\<open>net.Listen\<close> does.
\<close>

datatype stub_resolver = StubResolver string "resolver_option list"

datatype stub_router = StubRouter string "stub_resolver router_option list"

definition stub_handler :: "string \<Rightarrow> (stub_router, nat) handler_factory" where
  "stub_handler kind option =
     (\<lambda>(n, writer) request. (Suc n, writer\<lparr>written := written writer @ kind\<rparr>))"

record stub_server =
  srv_address :: string
  srv_routes :: "(string \<times> nat http_handler) list"
  srv_listening :: bool

definition stub_Start :: "stub_server \<Rightarrow> go_error option \<times> stub_server" where
  "stub_Start srv =
     (if CHR '':'' \<in> set (srv_address srv)
      then (None, srv\<lparr>srv_listening := True\<rparr>)
      else (Some (''listen tcp: address '' @ srv_address srv @ '': missing port in address''), srv))"

definition stub_Stop :: "stub_server \<Rightarrow> go_error option \<times> stub_server" where
  "stub_Stop srv = (None, srv\<lparr>srv_listening := False\<rparr>)"

text \<open>
  The default actions of the Go runtime on Linux for a process started in the usual way,
  after the documentation of \<^verbatim>\<open>os/signal\<close>: SIGHUP, SIGINT and SIGTERM make the program
  exit; SIGQUIT, SIGILL, SIGTRAP, SIGABRT, SIGSTKFLT and SIGSYS make it exit with a stack
  dump; SIGKILL cannot be caught; SIGBUS, SIGFPE and SIGSEGV end it as well. The other
  signals are caught without any action, or stop and continue the process.
\<close>

definition go_default_action :: "signal \<Rightarrow> signal_action" where
  "go_default_action s =
     (if s \<in> {1, 2, 3, 4, 5, 6, 7, 8, 9, 11, 15, 16, 31} then Terminates else NoAction)"

definition stub_lib :: "(stub_resolver, stub_router, nat, stub_server) library" where
  "stub_lib =
     \<lparr>registry_NewRouter = StubRouter ''registry'',
      static_NewRouter = StubRouter ''static'',
      grpc_NewResolver = StubResolver ''grpc'',
      host_NewResolver = StubResolver ''host'',
      path_NewResolver = StubResolver ''path'',
      vpath_NewResolver = StubResolver ''vpath'',
      api_NewHandler = stub_handler ''api'',
      event_NewHandler = stub_handler ''event'',
      http_NewHandler = stub_handler ''http'',
      rpc_NewHandler = stub_handler ''rpc'',
      web_NewHandler = stub_handler ''web'',
      httpServer_NewServer = (\<lambda>address. \<lparr>srv_address = address, srv_routes = [], srv_listening = False\<rparr>),
      Handle = (\<lambda>srv pattern h. srv\<lparr>srv_routes := srv_routes srv @ [(pattern, h)]\<rparr>),
      Start = stub_Start,
      Stop = stub_Stop,
      default_action = go_default_action\<rparr>"

definition stub_cmd :: "(stub_resolver, stub_router, nat, stub_server) cmd" where
  "stub_cmd = newCmd stub_lib []"

text \<open>The stub command with all three registries emptied.\<close>

definition bare_cmd :: "(stub_resolver, stub_router, nat, stub_server) cmd" where
  "bare_cmd = stub_cmd\<lparr>opts := (opts stub_cmd)\<lparr>Routers := Map.empty, Resolvers := Map.empty,
                                                Handlers := Map.empty\<rparr>\<rparr>"

text \<open>Command lines used to run the definitions.\<close>

definition default_ctx :: Context where
  "default_ctx = context_of DefaultFlags []"

definition empty_kinds_ctx :: Context where
  "empty_kinds_ctx = context_of DefaultFlags [(''router'', []), (''resolver'', []), (''handler'', [])]"

definition api_foo_ctx :: Context where
  "api_foo_ctx = context_of DefaultFlags [(''handler'', ''api''), (''namespace'', ''foo'')]"

definition no_address_ctx :: Context where
  "no_address_ctx = context_of DefaultFlags [(''server_address'', [])]"

definition custom_address_ctx :: Context where
  "custom_address_ctx = context_of DefaultFlags [(''server_address'', ''127.0.0.1:9090'')]"

definition no_port_ctx :: Context where
  "no_port_ctx = context_of DefaultFlags [(''server_address'', ''no-port'')]"

text \<open>
  A command whose server is a stub server on the given address, and the server and the
  command that \<^verbatim>\<open>Before\<close> leaves behind for the command line \<^verbatim>\<open>--server_address=no-port\<close>.
\<close>

definition stub_server_cmd :: "string \<Rightarrow> (stub_resolver, stub_router, nat, stub_server) cmd" where
  "stub_server_cmd address =
     stub_cmd\<lparr>opts := (opts stub_cmd)\<lparr>Server :=
       Some \<lparr>srv_address = address, srv_routes = [], srv_listening = False\<rparr>\<rparr>\<rparr>"

definition no_port_server :: stub_server where
  "no_port_server =
     \<lparr>srv_address = ''no-port'',
      srv_routes = [(''/'', CorsMiddleware (stub_handler ''rpc''
         [WithRouter (StubRouter ''registry'' [WithResolver (StubResolver ''vpath''
            [WithNamespace (StaticNamespace ''go.micro''), WithHandler ''rpc''])])]))],
      srv_listening = False\<rparr>"

definition no_port_cmd :: "(stub_resolver, stub_router, nat, stub_server) cmd" where
  "no_port_cmd = stub_cmd\<lparr>opts := (opts stub_cmd)\<lparr>Server := Some no_port_server\<rparr>\<rparr>"



section \<open>Properties of the middleware\<close>

lemma cors_headers_set: "has_cors_headers (cors_headers writer)"
  by (simp add: has_cors_headers_def cors_header_lines_def cors_headers_def Header_Set_def)

lemma cors_headers_status: "status (cors_headers writer) = status writer"
  by (simp add: cors_headers_def Header_Set_def)

lemma cors_headers_written: "written (cors_headers writer) = written writer"
  by (simp add: cors_headers_def Header_Set_def)

lemma has_cors_headers_status_update:
  "has_cors_headers (writer\<lparr>status := x\<rparr>) = has_cors_headers writer"
  by (simp add: has_cors_headers_def)

lemma has_cors_headers_written_update:
  "has_cors_headers (writer\<lparr>written := x\<rparr>) = has_cors_headers writer"
  by (simp add: has_cors_headers_def)

text \<open>
  C4: an OPTIONS request to the wrapped entry point, on a response whose status has not
  been written yet, is answered by the middleware alone: the five CORS headers are set,
  the status is 200, the state of the wrapped handler is untouched and the response is
  the same whatever the wrapped handler is.
\<close>

theorem cors_options_short_circuit:
  assumes "Method request = ''OPTIONS''" and "status writer = None"
  shows "CorsMiddleware handler (s, writer) request = (s, (cors_headers writer)\<lparr>status := Some 200\<rparr>)
       \<and> has_cors_headers (snd (CorsMiddleware handler (s, writer) request))
       \<and> status (snd (CorsMiddleware handler (s, writer) request)) = Some 200
       \<and> CorsMiddleware other (s, writer) request = CorsMiddleware handler (s, writer) request"
  using assms
  by (simp add: CorsMiddleware_def MethodOptions_def StatusOK_def WriteHeader_def
      cors_headers_status has_cors_headers_status_update cors_headers_set)

theorem cors_options_short_circuit_witness:
  "Method options_request = ''OPTIONS'' \<and> status new_writer = None
   \<and> CorsMiddleware counting_handler ((0, []), new_writer) options_request =
       ((0, []), (cors_headers new_writer)\<lparr>status := Some 200\<rparr>)
   \<and> has_cors_headers (snd (CorsMiddleware counting_handler ((0, []), new_writer) options_request))
   \<and> status (snd (CorsMiddleware counting_handler ((0, []), new_writer) options_request)) = Some 200"
proof -
  have m: "Method options_request = ''OPTIONS''"
    by (simp add: options_request_def)
  have st: "status new_writer = None"
    by (simp add: new_writer_def)
  from cors_options_short_circuit [where handler = counting_handler and s = "(0, [])"
      and other = counting_handler, OF m st] m st
  show ?thesis by blast
qed

text \<open>
  C5, as the code has it: for any other method the middleware sets the five CORS headers
  and then runs the wrapped handler once, on the original request and on the writer
  that carries the headers; the response is what that one run produces, so it has the
  five headers when the handler leaves those keys as it found them, and a handler that
  deletes or replaces one of them has the last word.
\<close>

theorem cors_delegates_other_methods:
  assumes "Method request \<noteq> ''OPTIONS''"
  shows "CorsMiddleware handler (s, writer) request = handler (s, cors_headers writer) request
       \<and> has_cors_headers (cors_headers writer)
       \<and> ((\<forall>k \<in> fst ` set cors_header_lines.
             Header (snd (handler (s, cors_headers writer) request)) k = Header (cors_headers writer) k)
          \<longrightarrow> has_cors_headers (snd (CorsMiddleware handler (s, writer) request)))"
proof -
  have eq: "CorsMiddleware handler (s, writer) request = handler (s, cors_headers writer) request"
    using assms by (simp add: CorsMiddleware_def MethodOptions_def)
  have keep: "has_cors_headers (snd (handler (s, cors_headers writer) request))"
    if "\<forall>k \<in> fst ` set cors_header_lines.
          Header (snd (handler (s, cors_headers writer) request)) k = Header (cors_headers writer) k"
    using that cors_headers_set [of writer]
    by (fastforce simp add: has_cors_headers_def list_all_iff)
  from eq keep show ?thesis by (simp add: cors_headers_set)
qed

theorem cors_delegates_other_methods_witness:
  "Method get_request \<noteq> ''OPTIONS''
   \<and> CorsMiddleware counting_handler ((0, []), new_writer) get_request =
       ((1, [get_request]), (cors_headers new_writer)\<lparr>written := ''ok''\<rparr>)
   \<and> has_cors_headers (snd (CorsMiddleware counting_handler ((0, []), new_writer) get_request))"
proof -
  have m: "Method get_request \<noteq> ''OPTIONS''"
    by (simp add: get_request_def)
  have run: "counting_handler ((0, []), cors_headers new_writer) get_request =
      ((1, [get_request]), (cors_headers new_writer)\<lparr>written := ''ok''\<rparr>)"
    by (simp add: counting_handler_def cors_headers_written new_writer_def)
  from cors_delegates_other_methods [where handler = counting_handler and s = "(0, [])"
      and writer = new_writer, OF m] m run
  show ?thesis by (simp add: has_cors_headers_written_update cors_headers_set)
qed

theorem handler_deletes_header_counterexample:
  "Method get_request \<noteq> ''OPTIONS''
   \<and> Header (snd (CorsMiddleware deleting_handler ((), new_writer) get_request))
        ''Access-Control-Allow-Origin'' = None
   \<and> \<not> has_cors_headers (snd (CorsMiddleware deleting_handler ((), new_writer) get_request))"
  by (simp add: get_request_def CorsMiddleware_def MethodOptions_def deleting_handler_def
      has_cors_headers_def cors_header_lines_def Let_def)

section \<open>Properties of Before\<close>

lemma Before_router_unknown:
  "unknown_kind (Routers (opts c)) (ctx ''router'') \<Longrightarrow>
   Before lib c ctx w = Fatalf (''Router '' @ ctx ''router'' @ '' is not found'') w"
  by (simp add: Before_def unknown_kind_def Let_def)

lemma Before_handler_unknown:
  "\<not> unknown_kind (Routers (opts c)) (ctx ''router'') \<Longrightarrow>
   unknown_kind (Handlers (opts c)) (ctx ''handler'') \<Longrightarrow>
   Before lib c ctx w = Fatalf (''Handler '' @ ctx ''handler'' @ '' is not found'') w"
  by (auto simp add: Before_def unknown_kind_def Let_def split: option.splits)

lemma Before_resolver_unknown:
  "\<not> unknown_kind (Routers (opts c)) (ctx ''router'') \<Longrightarrow>
   \<not> unknown_kind (Handlers (opts c)) (ctx ''handler'') \<Longrightarrow>
   unknown_kind (Resolvers (opts c)) (ctx ''resolver'') \<Longrightarrow>
   Before lib c ctx w = Fatalf (''Resolver '' @ ctx ''resolver'' @ '' is not found'') w"
  by (auto simp add: Before_def unknown_kind_def Let_def split: option.splits)

lemma Before_success:
  assumes "\<not> unknown_kind (Routers (opts c)) (ctx ''router'')"
    and "\<not> unknown_kind (Handlers (opts c)) (ctx ''handler'')"
    and "\<not> unknown_kind (Resolvers (opts c)) (ctx ''resolver'')"
    and "nrt = chosen (registry_NewRouter lib) (Routers (opts c)) (ctx ''router'')"
    and "nh = chosen (rpc_NewHandler lib) (Handlers (opts c)) (ctx ''handler'')"
    and "nrs = chosen (vpath_NewResolver lib) (Resolvers (opts c)) (ctx ''resolver'')"
    and "rs = nrs (resolver_options_of ctx)"
    and "rt = nrt [WithResolver rs]"
    and "hdlr = nh [WithRouter rt]"
  shows "Before lib c ctx w =
           (Returned (None, c\<lparr>opts := (opts c)\<lparr>Server := Some (Handle lib
               (httpServer_NewServer lib (address_of ctx)) ''/'' (CorsMiddleware hdlr))\<rparr>\<rparr>),
            w\<lparr>calls := calls w @
              [NewResolver_call (resolver_options_of ctx) rs,
               NewRouter_call [WithResolver rs] rt,
               NewHandler_call [WithRouter rt] hdlr,
               NewServer_call (address_of ctx) (httpServer_NewServer lib (address_of ctx)),
               Handle_call ''/'' (CorsMiddleware hdlr)]\<rparr>)"
proof -
  have 1: "ctx ''router'' \<noteq> [] \<Longrightarrow> Routers (opts c) (ctx ''router'') = Some nrt"
    using assms(1,4) by (auto simp add: unknown_kind_def chosen_def)
  have 2: "ctx ''handler'' \<noteq> [] \<Longrightarrow> Handlers (opts c) (ctx ''handler'') = Some nh"
    using assms(2,5) by (auto simp add: unknown_kind_def chosen_def)
  have 3: "ctx ''resolver'' \<noteq> [] \<Longrightarrow> Resolvers (opts c) (ctx ''resolver'') = Some nrs"
    using assms(3,6) by (auto simp add: unknown_kind_def chosen_def)
  have 4: "ctx ''router'' = [] \<Longrightarrow> nrt = registry_NewRouter lib"
    "ctx ''handler'' = [] \<Longrightarrow> nh = rpc_NewHandler lib"
    "ctx ''resolver'' = [] \<Longrightarrow> nrs = vpath_NewResolver lib"
    using assms(4,5,6) by (simp_all add: chosen_def)
  show ?thesis
    using 1 2 3 4 assms(7,8,9)
    by (simp add: Before_def Let_def called_def address_of_def resolver_options_of_def)
qed

lemma Before_fatal:
  assumes "unknown_kind (Routers (opts c)) (ctx ''router'')
         \<or> unknown_kind (Handlers (opts c)) (ctx ''handler'')
         \<or> unknown_kind (Resolvers (opts c)) (ctx ''resolver'')"
  shows "\<exists>msg. Before lib c ctx w = (Exited 1, w\<lparr>log_output := log_output w @ [msg]\<rparr>)"
  using assms Before_router_unknown [of c ctx lib w] Before_handler_unknown [of c ctx lib w]
    Before_resolver_unknown [of c ctx lib w]
  unfolding Fatalf_def by blast

lemma new_calls_log: "new_calls w (w\<lparr>log_output := l\<rparr>) = []"
  by (simp add: new_calls_def)

lemma new_calls_append: "new_calls w (w\<lparr>calls := calls w @ xs\<rparr>) = xs"
  by (simp add: new_calls_def)


text \<open>
  Every run of \<^verbatim>\<open>Before\<close> is of one of two shapes: it exits with status 1 after one log
  line and no call at all, or it returns nil after exactly the five calls that assemble
  the pipeline from the selected factories.
\<close>

lemma Before_shapes:
  assumes "Before lib c ctx w = (res, w')"
  obtains (fatal) msg where
      "unknown_kind (Routers (opts c)) (ctx ''router'')
         \<or> unknown_kind (Handlers (opts c)) (ctx ''handler'')
         \<or> unknown_kind (Resolvers (opts c)) (ctx ''resolver'')"
      "res = Exited 1" "w' = w\<lparr>log_output := log_output w @ [msg]\<rparr>" "new_calls w w' = []"
  | (returned) rs rt hdlr where
      "\<not> unknown_kind (Routers (opts c)) (ctx ''router'')"
      "\<not> unknown_kind (Handlers (opts c)) (ctx ''handler'')"
      "\<not> unknown_kind (Resolvers (opts c)) (ctx ''resolver'')"
      "rs = chosen (vpath_NewResolver lib) (Resolvers (opts c)) (ctx ''resolver'') (resolver_options_of ctx)"
      "rt = chosen (registry_NewRouter lib) (Routers (opts c)) (ctx ''router'') [WithResolver rs]"
      "hdlr = chosen (rpc_NewHandler lib) (Handlers (opts c)) (ctx ''handler'') [WithRouter rt]"
      "res = Returned (None, c\<lparr>opts := (opts c)\<lparr>Server := Some (Handle lib
               (httpServer_NewServer lib (address_of ctx)) ''/'' (CorsMiddleware hdlr))\<rparr>\<rparr>)"
      "new_calls w w' =
              [NewResolver_call (resolver_options_of ctx) rs,
               NewRouter_call [WithResolver rs] rt,
               NewHandler_call [WithRouter rt] hdlr,
               NewServer_call (address_of ctx) (httpServer_NewServer lib (address_of ctx)),
               Handle_call ''/'' (CorsMiddleware hdlr)]"
proof (cases "unknown_kind (Routers (opts c)) (ctx ''router'')
         \<or> unknown_kind (Handlers (opts c)) (ctx ''handler'')
         \<or> unknown_kind (Resolvers (opts c)) (ctx ''resolver'')")
  case True
  from Before_fatal [OF True, of lib w] assms obtain msg where
    "res = Exited 1" "w' = w\<lparr>log_output := log_output w @ [msg]\<rparr>" by auto
  with True show ?thesis using fatal [of msg] by (simp add: new_calls_log)
next
  case False
  then have k: "\<not> unknown_kind (Routers (opts c)) (ctx ''router'')"
    "\<not> unknown_kind (Handlers (opts c)) (ctx ''handler'')"
    "\<not> unknown_kind (Resolvers (opts c)) (ctx ''resolver'')" by simp_all
  from Before_success [OF k refl refl refl refl refl refl, of lib w] assms
  show ?thesis using returned k by (simp add: new_calls_append)
qed

text \<open>
  C1: when the router, handler or resolver kind is non-empty and has no entry in its
  registry, \<^verbatim>\<open>Before\<close> ends the process with exit status 1 after logging one line that
  names the axis and the unknown value (the first unknown one in the order router,
  handler, resolver); no constructor has been called and no server started.
\<close>

theorem unknown_kind_is_fatal:
  assumes "unknown_kind (Routers (opts c)) (ctx ''router'')
         \<or> unknown_kind (Handlers (opts c)) (ctx ''handler'')
         \<or> unknown_kind (Resolvers (opts c)) (ctx ''resolver'')"
  shows "Before lib c ctx w =
           (Exited 1,
            w\<lparr>log_output := log_output w @
               [if unknown_kind (Routers (opts c)) (ctx ''router'')
                then ''Router '' @ ctx ''router'' @ '' is not found''
                else if unknown_kind (Handlers (opts c)) (ctx ''handler'')
                then ''Handler '' @ ctx ''handler'' @ '' is not found''
                else ''Resolver '' @ ctx ''resolver'' @ '' is not found'']\<rparr>)
       \<and> new_calls w (snd (Before lib c ctx w)) = []"
proof -
  have "Before lib c ctx w =
           (Exited 1,
            w\<lparr>log_output := log_output w @
               [if unknown_kind (Routers (opts c)) (ctx ''router'')
                then ''Router '' @ ctx ''router'' @ '' is not found''
                else if unknown_kind (Handlers (opts c)) (ctx ''handler'')
                then ''Handler '' @ ctx ''handler'' @ '' is not found''
                else ''Resolver '' @ ctx ''resolver'' @ '' is not found'']\<rparr>)"
    using assms Before_router_unknown [of c ctx lib w] Before_handler_unknown [of c ctx lib w]
      Before_resolver_unknown [of c ctx lib w]
    by (auto simp add: Fatalf_def)
  then show ?thesis by (simp add: new_calls_log)
qed

lemma stub_cmd_Routers: "Routers (opts stub_cmd) = DefaultRouters stub_lib"
  and stub_cmd_Resolvers: "Resolvers (opts stub_cmd) = DefaultResolvers stub_lib"
  and stub_cmd_Handlers: "Handlers (opts stub_cmd) = DefaultHandlers stub_lib"
  by (simp_all add: stub_cmd_def newCmd_def)

theorem unknown_kind_is_fatal_witness:
  "unknown_kind (Routers (opts stub_cmd)) (context_of DefaultFlags [(''router'', ''doesnotexist'')] ''router'')
   \<and> Before stub_lib stub_cmd (context_of DefaultFlags [(''router'', ''doesnotexist'')]) (world0 []) =
       (Exited 1, \<lparr>log_output = [''Router doesnotexist is not found''], calls = [], pending = []\<rparr>)"
proof -
  have u: "unknown_kind (Routers (opts stub_cmd))
             (context_of DefaultFlags [(''router'', ''doesnotexist'')] ''router'')"
    by (simp add: unknown_kind_def stub_cmd_Routers DefaultRouters_def context_of_def)
  have c: "context_of DefaultFlags [(''router'', ''doesnotexist'')] ''router'' = ''doesnotexist''"
    by (simp add: context_of_def)
  from unknown_kind_is_fatal [where lib = stub_lib and w = "world0 []" and c = stub_cmd
      and ctx = "context_of DefaultFlags [(''router'', ''doesnotexist'')]"] u c
  show ?thesis by (simp add: world0_def)
qed

lemma selects_known: "selects dflt registry arg f \<Longrightarrow> \<not> unknown_kind registry arg"
  by (auto simp add: selects_def unknown_kind_def split: if_splits)

lemma selects_chosen: "selects dflt registry arg f \<Longrightarrow> chosen dflt registry arg = f"
  by (auto simp add: selects_def chosen_def split: if_splits)

lemma selects_default: "selects d m [] d"
  by (simp add: selects_def)

lemma Before_selected:
  assumes "selects (registry_NewRouter lib) (Routers (opts c)) (ctx ''router'') newRouter"
    and "selects (rpc_NewHandler lib) (Handlers (opts c)) (ctx ''handler'') newHandler"
    and "selects (vpath_NewResolver lib) (Resolvers (opts c)) (ctx ''resolver'') newResolver"
  shows "Before lib c ctx w =
           (Returned (None, c\<lparr>opts := (opts c)\<lparr>Server := Some (pipeline_server lib (address_of ctx)
               (resolver_options_of ctx) newResolver newRouter newHandler)\<rparr>\<rparr>),
            w\<lparr>calls := calls w @ pipeline_calls lib (address_of ctx) (resolver_options_of ctx)
               newResolver newRouter newHandler\<rparr>)"
  using Before_success [OF assms [THEN selects_known] refl refl refl refl refl refl, of lib w]
    assms [THEN selects_chosen]
  by (simp add: pipeline_calls_def pipeline_server_def Let_def)

text \<open>
  C2: when the kind of an axis is empty and the other two axes select a factory,
  \<^verbatim>\<open>Before\<close> returns nil after exactly the five assembling calls, in which that layer is
  built by the built-in factory of the axis (\<^verbatim>\<open>registry.NewRouter\<close>,
  \<^verbatim>\<open>vpath.NewResolver\<close>, \<^verbatim>\<open>rpc.NewHandler\<close>); in every run with that kind empty no
  instance of the layer comes from another factory, and replacing the registry of the
  axis by any other mapping changes neither the outcome, nor the server, nor the calls.
\<close>

theorem empty_kind_uses_default:
  assumes "Before lib c ctx w = (res, w')"
  shows "(ctx ''router'' = [] \<longrightarrow>
            (\<forall>newHandler newResolver.
               selects (rpc_NewHandler lib) (Handlers (opts c)) (ctx ''handler'') newHandler
               \<and> selects (vpath_NewResolver lib) (Resolvers (opts c)) (ctx ''resolver'') newResolver \<longrightarrow>
               res = Returned (None, c\<lparr>opts := (opts c)\<lparr>Server := Some (pipeline_server lib (address_of ctx)
                       (resolver_options_of ctx) newResolver (registry_NewRouter lib) newHandler)\<rparr>\<rparr>)
               \<and> new_calls w w' = pipeline_calls lib (address_of ctx) (resolver_options_of ctx)
                       newResolver (registry_NewRouter lib) newHandler) \<and>
            (\<forall>ropts rt. NewRouter_call ropts rt \<in> set (new_calls w w') \<longrightarrow>
               rt = registry_NewRouter lib ropts) \<and>
            (\<forall>R. outcome_server (Before lib (c\<lparr>opts := (opts c)\<lparr>Routers := R\<rparr>\<rparr>) ctx w) =
                 outcome_server (res, w')))
       \<and> (ctx ''resolver'' = [] \<longrightarrow>
            (\<forall>newRouter newHandler.
               selects (registry_NewRouter lib) (Routers (opts c)) (ctx ''router'') newRouter
               \<and> selects (rpc_NewHandler lib) (Handlers (opts c)) (ctx ''handler'') newHandler \<longrightarrow>
               res = Returned (None, c\<lparr>opts := (opts c)\<lparr>Server := Some (pipeline_server lib (address_of ctx)
                       (resolver_options_of ctx) (vpath_NewResolver lib) newRouter newHandler)\<rparr>\<rparr>)
               \<and> new_calls w w' = pipeline_calls lib (address_of ctx) (resolver_options_of ctx)
                       (vpath_NewResolver lib) newRouter newHandler) \<and>
            (\<forall>ropts rs. NewResolver_call ropts rs \<in> set (new_calls w w') \<longrightarrow>
               rs = vpath_NewResolver lib ropts) \<and>
            (\<forall>R. outcome_server (Before lib (c\<lparr>opts := (opts c)\<lparr>Resolvers := R\<rparr>\<rparr>) ctx w) =
                 outcome_server (res, w')))
       \<and> (ctx ''handler'' = [] \<longrightarrow>
            (\<forall>newRouter newResolver.
               selects (registry_NewRouter lib) (Routers (opts c)) (ctx ''router'') newRouter
               \<and> selects (vpath_NewResolver lib) (Resolvers (opts c)) (ctx ''resolver'') newResolver \<longrightarrow>
               res = Returned (None, c\<lparr>opts := (opts c)\<lparr>Server := Some (pipeline_server lib (address_of ctx)
                       (resolver_options_of ctx) newResolver newRouter (rpc_NewHandler lib))\<rparr>\<rparr>)
               \<and> new_calls w w' = pipeline_calls lib (address_of ctx) (resolver_options_of ctx)
                       newResolver newRouter (rpc_NewHandler lib)) \<and>
            (\<forall>hopts h. NewHandler_call hopts h \<in> set (new_calls w w') \<longrightarrow>
               h = rpc_NewHandler lib hopts) \<and>
            (\<forall>R. outcome_server (Before lib (c\<lparr>opts := (opts c)\<lparr>Handlers := R\<rparr>\<rparr>) ctx w) =
                 outcome_server (res, w')))"
proof -
  have sel: "res = Returned (None, c\<lparr>opts := (opts c)\<lparr>Server := Some (pipeline_server lib (address_of ctx)
                       (resolver_options_of ctx) newResolver newRouter newHandler)\<rparr>\<rparr>)
               \<and> new_calls w w' = pipeline_calls lib (address_of ctx) (resolver_options_of ctx)
                       newResolver newRouter newHandler"
    if "selects (registry_NewRouter lib) (Routers (opts c)) (ctx ''router'') newRouter"
      "selects (rpc_NewHandler lib) (Handlers (opts c)) (ctx ''handler'') newHandler"
      "selects (vpath_NewResolver lib) (Resolvers (opts c)) (ctx ''resolver'') newResolver"
    for newRouter newHandler newResolver
    using Before_selected [OF that, of w] assms by (simp add: new_calls_append)
  have only: "(ctx ''router'' = [] \<longrightarrow>
            (\<forall>ropts rt. NewRouter_call ropts rt \<in> set (new_calls w w') \<longrightarrow>
               rt = registry_NewRouter lib ropts))
       \<and> (ctx ''resolver'' = [] \<longrightarrow>
            (\<forall>ropts rs. NewResolver_call ropts rs \<in> set (new_calls w w') \<longrightarrow>
               rs = vpath_NewResolver lib ropts))
       \<and> (ctx ''handler'' = [] \<longrightarrow>
            (\<forall>hopts h. NewHandler_call hopts h \<in> set (new_calls w w') \<longrightarrow>
               h = rpc_NewHandler lib hopts))"
    using assms
  proof (cases rule: Before_shapes)
    case (fatal msg)
    then show ?thesis by simp
  next
    case (returned rs rt hdlr)
    then show ?thesis by (simp add: chosen_def)
  qed
  have r: "outcome_server (Before lib (c\<lparr>opts := (opts c)\<lparr>Routers := R\<rparr>\<rparr>) ctx w) =
      outcome_server (Before lib c ctx w)" if "ctx ''router'' = []" for R
    using that by (simp add: Before_def Let_def outcome_server_def Fatalf_def split: option.splits)
  have rs: "outcome_server (Before lib (c\<lparr>opts := (opts c)\<lparr>Resolvers := R\<rparr>\<rparr>) ctx w) =
      outcome_server (Before lib c ctx w)" if "ctx ''resolver'' = []" for R
    using that by (simp add: Before_def Let_def outcome_server_def Fatalf_def split: option.splits)
  have h: "outcome_server (Before lib (c\<lparr>opts := (opts c)\<lparr>Handlers := R\<rparr>\<rparr>) ctx w) =
      outcome_server (Before lib c ctx w)" if "ctx ''handler'' = []" for R
    using that by (simp add: Before_def Let_def outcome_server_def Fatalf_def split: option.splits)
  show ?thesis
  proof (intro conjI impI allI)
    fix newHandler newResolver
    assume "ctx ''router'' = []"
      and "selects (rpc_NewHandler lib) (Handlers (opts c)) (ctx ''handler'') newHandler
         \<and> selects (vpath_NewResolver lib) (Resolvers (opts c)) (ctx ''resolver'') newResolver"
    then have *: "res = Returned (None, c\<lparr>opts := (opts c)\<lparr>Server := Some (pipeline_server lib (address_of ctx)
                       (resolver_options_of ctx) newResolver (registry_NewRouter lib) newHandler)\<rparr>\<rparr>)
               \<and> new_calls w w' = pipeline_calls lib (address_of ctx) (resolver_options_of ctx)
                       newResolver (registry_NewRouter lib) newHandler"
      using sel [of "registry_NewRouter lib" newHandler newResolver] by (simp add: selects_default)
    from * show "res = Returned (None, c\<lparr>opts := (opts c)\<lparr>Server := Some (pipeline_server lib (address_of ctx)
                       (resolver_options_of ctx) newResolver (registry_NewRouter lib) newHandler)\<rparr>\<rparr>)" ..
    from * show "new_calls w w' = pipeline_calls lib (address_of ctx) (resolver_options_of ctx)
                       newResolver (registry_NewRouter lib) newHandler" ..
  next
    fix newRouter newHandler
    assume "ctx ''resolver'' = []"
      and "selects (registry_NewRouter lib) (Routers (opts c)) (ctx ''router'') newRouter
         \<and> selects (rpc_NewHandler lib) (Handlers (opts c)) (ctx ''handler'') newHandler"
    then have *: "res = Returned (None, c\<lparr>opts := (opts c)\<lparr>Server := Some (pipeline_server lib (address_of ctx)
                       (resolver_options_of ctx) (vpath_NewResolver lib) newRouter newHandler)\<rparr>\<rparr>)
               \<and> new_calls w w' = pipeline_calls lib (address_of ctx) (resolver_options_of ctx)
                       (vpath_NewResolver lib) newRouter newHandler"
      using sel [of newRouter newHandler "vpath_NewResolver lib"] by (simp add: selects_default)
    from * show "res = Returned (None, c\<lparr>opts := (opts c)\<lparr>Server := Some (pipeline_server lib (address_of ctx)
                       (resolver_options_of ctx) (vpath_NewResolver lib) newRouter newHandler)\<rparr>\<rparr>)" ..
    from * show "new_calls w w' = pipeline_calls lib (address_of ctx) (resolver_options_of ctx)
                       (vpath_NewResolver lib) newRouter newHandler" ..
  next
    fix newRouter newResolver
    assume "ctx ''handler'' = []"
      and "selects (registry_NewRouter lib) (Routers (opts c)) (ctx ''router'') newRouter
         \<and> selects (vpath_NewResolver lib) (Resolvers (opts c)) (ctx ''resolver'') newResolver"
    then have *: "res = Returned (None, c\<lparr>opts := (opts c)\<lparr>Server := Some (pipeline_server lib (address_of ctx)
                       (resolver_options_of ctx) newResolver newRouter (rpc_NewHandler lib))\<rparr>\<rparr>)
               \<and> new_calls w w' = pipeline_calls lib (address_of ctx) (resolver_options_of ctx)
                       newResolver newRouter (rpc_NewHandler lib)"
      using sel [of newRouter "rpc_NewHandler lib" newResolver] by (simp add: selects_default)
    from * show "res = Returned (None, c\<lparr>opts := (opts c)\<lparr>Server := Some (pipeline_server lib (address_of ctx)
                       (resolver_options_of ctx) newResolver newRouter (rpc_NewHandler lib))\<rparr>\<rparr>)" ..
    from * show "new_calls w w' = pipeline_calls lib (address_of ctx) (resolver_options_of ctx)
                       newResolver newRouter (rpc_NewHandler lib)" ..
  qed (use only r rs h assms in simp_all)
qed

text \<open>
  C3: with a non-empty handler kind found in its registry and a non-empty namespace,
  when the router and resolver axes select a factory, \<^verbatim>\<open>Before\<close> makes exactly the five
  assembling calls, the first of which constructs the resolver with the static
  namespace and the handler tag as its options; in every run no resolver is constructed
  with other options, and none unless the handler kind was found in its registry.
\<close>

theorem handler_and_namespace_reach_resolver:
  assumes "ctx ''handler'' \<noteq> []" and "ctx ''namespace'' \<noteq> []"
    and "Before lib c ctx w = (res, w')"
  shows "(\<forall>newRouter newHandler newResolver.
            selects (registry_NewRouter lib) (Routers (opts c)) (ctx ''router'') newRouter
            \<and> Handlers (opts c) (ctx ''handler'') = Some newHandler
            \<and> selects (vpath_NewResolver lib) (Resolvers (opts c)) (ctx ''resolver'') newResolver \<longrightarrow>
            new_calls w w' = pipeline_calls lib (address_of ctx)
                [WithNamespace (StaticNamespace (ctx ''namespace'')), WithHandler (ctx ''handler'')]
                newResolver newRouter newHandler
            \<and> hd (new_calls w w') =
                NewResolver_call
                  [WithNamespace (StaticNamespace (ctx ''namespace'')), WithHandler (ctx ''handler'')]
                  (newResolver
                    [WithNamespace (StaticNamespace (ctx ''namespace'')), WithHandler (ctx ''handler'')]))
       \<and> (\<forall>ropts rs. NewResolver_call ropts rs \<in> set (new_calls w w') \<longrightarrow>
            ropts = [WithNamespace (StaticNamespace (ctx ''namespace'')), WithHandler (ctx ''handler'')]
            \<and> Handlers (opts c) (ctx ''handler'') \<noteq> None)"
proof -
  have ro: "resolver_options_of ctx =
      [WithNamespace (StaticNamespace (ctx ''namespace'')), WithHandler (ctx ''handler'')]"
    using assms(1,2) by (simp add: resolver_options_of_def)
  have built: "new_calls w w' = pipeline_calls lib (address_of ctx)
                [WithNamespace (StaticNamespace (ctx ''namespace'')), WithHandler (ctx ''handler'')]
                newResolver newRouter newHandler
            \<and> hd (new_calls w w') =
                NewResolver_call
                  [WithNamespace (StaticNamespace (ctx ''namespace'')), WithHandler (ctx ''handler'')]
                  (newResolver
                    [WithNamespace (StaticNamespace (ctx ''namespace'')), WithHandler (ctx ''handler'')])"
    if "selects (registry_NewRouter lib) (Routers (opts c)) (ctx ''router'') newRouter"
      "Handlers (opts c) (ctx ''handler'') = Some newHandler"
      "selects (vpath_NewResolver lib) (Resolvers (opts c)) (ctx ''resolver'') newResolver"
    for newRouter newHandler newResolver
  proof -
    have h: "selects (rpc_NewHandler lib) (Handlers (opts c)) (ctx ''handler'') newHandler"
      using that(2) assms(1) by (simp add: selects_def)
    from Before_selected [OF that(1) h that(3), of w] assms(3)
    have "new_calls w w' = pipeline_calls lib (address_of ctx) (resolver_options_of ctx)
        newResolver newRouter newHandler"
      by (simp add: new_calls_append)
    then show ?thesis
      by (simp add: ro pipeline_calls_def Let_def)
  qed
  have only: "\<forall>ropts rs. NewResolver_call ropts rs \<in> set (new_calls w w') \<longrightarrow>
            ropts = [WithNamespace (StaticNamespace (ctx ''namespace'')), WithHandler (ctx ''handler'')]
            \<and> Handlers (opts c) (ctx ''handler'') \<noteq> None"
    using assms(3)
  proof (cases rule: Before_shapes)
    case (fatal msg)
    then show ?thesis by simp
  next
    case (returned rs rt hdlr)
    with assms(1) show ?thesis
      by (simp add: ro unknown_kind_def)
  qed
  from built only show ?thesis by blast
qed

text \<open>
  C9: when the three axes select a factory, \<^verbatim>\<open>Before\<close> returns nil after the five
  assembling calls, in which \<^verbatim>\<open>httpServer.NewServer\<close> is called on \<^verbatim>\<open>:8080\<close> when the
  \<^verbatim>\<open>server_address\<close> flag is empty and on the value of the flag otherwise, and it
  stores that server with the entry point registered at the root path; in every run no
  server is constructed on another address.
\<close>

theorem server_address_default:
  assumes "Before lib c ctx w = (res, w')"
  shows "(\<forall>newRouter newHandler newResolver.
            selects (registry_NewRouter lib) (Routers (opts c)) (ctx ''router'') newRouter
            \<and> selects (rpc_NewHandler lib) (Handlers (opts c)) (ctx ''handler'') newHandler
            \<and> selects (vpath_NewResolver lib) (Resolvers (opts c)) (ctx ''resolver'') newResolver \<longrightarrow>
            res = Returned (None, c\<lparr>opts := (opts c)\<lparr>Server := Some (pipeline_server lib
                    (if ctx ''server_address'' = [] then '':8080'' else ctx ''server_address'')
                    (resolver_options_of ctx) newResolver newRouter newHandler)\<rparr>\<rparr>)
            \<and> new_calls w w' = pipeline_calls lib
                    (if ctx ''server_address'' = [] then '':8080'' else ctx ''server_address'')
                    (resolver_options_of ctx) newResolver newRouter newHandler
            \<and> new_calls w w' ! 3 = NewServer_call
                    (if ctx ''server_address'' = [] then '':8080'' else ctx ''server_address'')
                    (httpServer_NewServer lib
                       (if ctx ''server_address'' = [] then '':8080'' else ctx ''server_address'')))
       \<and> (\<forall>a srv. NewServer_call a srv \<in> set (new_calls w w') \<longrightarrow>
            a = (if ctx ''server_address'' = [] then '':8080'' else ctx ''server_address'')
            \<and> srv = httpServer_NewServer lib a)"
proof -
  have built: "res = Returned (None, c\<lparr>opts := (opts c)\<lparr>Server := Some (pipeline_server lib
                    (address_of ctx) (resolver_options_of ctx) newResolver newRouter newHandler)\<rparr>\<rparr>)
            \<and> new_calls w w' = pipeline_calls lib (address_of ctx)
                    (resolver_options_of ctx) newResolver newRouter newHandler
            \<and> new_calls w w' ! 3 = NewServer_call (address_of ctx)
                    (httpServer_NewServer lib (address_of ctx))"
    if "selects (registry_NewRouter lib) (Routers (opts c)) (ctx ''router'') newRouter"
      "selects (rpc_NewHandler lib) (Handlers (opts c)) (ctx ''handler'') newHandler"
      "selects (vpath_NewResolver lib) (Resolvers (opts c)) (ctx ''resolver'') newResolver"
    for newRouter newHandler newResolver
    using Before_selected [OF that, of w] assms
    by (simp add: new_calls_append) (simp add: pipeline_calls_def Let_def)
  have only: "\<forall>a srv. NewServer_call a srv \<in> set (new_calls w w') \<longrightarrow>
            a = address_of ctx \<and> srv = httpServer_NewServer lib a"
    using assms
  proof (cases rule: Before_shapes)
    case (fatal msg)
    then show ?thesis by simp
  next
    case (returned rs rt hdlr)
    then show ?thesis by simp
  qed
  from built only show ?thesis
    unfolding address_of_def by blast
qed

text \<open>
  C10: the command built by \<^verbatim>\<open>newCmd\<close> without options knows exactly the routers
  registry and static, the resolvers grpc, host, path and vpath, and the handlers api,
  event, http, rpc and web; with it, a non-empty kind outside these names ends
  \<^verbatim>\<open>Before\<close> with exit status 1, and kinds among these names let it return nil.
\<close>

theorem default_registry_kinds:
  "dom (Routers (opts (newCmd lib []))) = {''registry'', ''static''}
   \<and> dom (Resolvers (opts (newCmd lib []))) = {''grpc'', ''host'', ''path'', ''vpath''}
   \<and> dom (Handlers (opts (newCmd lib []))) = {''api'', ''event'', ''http'', ''rpc'', ''web''}
   \<and> ((ctx ''router'' \<noteq> [] \<and> ctx ''router'' \<notin> {''registry'', ''static''})
        \<or> (ctx ''resolver'' \<noteq> [] \<and> ctx ''resolver'' \<notin> {''grpc'', ''host'', ''path'', ''vpath''})
        \<or> (ctx ''handler'' \<noteq> [] \<and> ctx ''handler'' \<notin> {''api'', ''event'', ''http'', ''rpc'', ''web''})
       \<longrightarrow> fst (Before lib (newCmd lib []) ctx w) = Exited 1)
   \<and> (ctx ''router'' \<in> {''registry'', ''static''}
        \<and> ctx ''resolver'' \<in> {''grpc'', ''host'', ''path'', ''vpath''}
        \<and> ctx ''handler'' \<in> {''api'', ''event'', ''http'', ''rpc'', ''web''}
       \<longrightarrow> (\<exists>c'. fst (Before lib (newCmd lib []) ctx w) = Returned (None, c')))"
proof -
  have R: "dom (Routers (opts (newCmd lib []))) = {''registry'', ''static''}"
    by (simp add: newCmd_def DefaultRouters_def) blast
  have S: "dom (Resolvers (opts (newCmd lib []))) = {''grpc'', ''host'', ''path'', ''vpath''}"
    by (simp add: newCmd_def DefaultResolvers_def) blast
  have H: "dom (Handlers (opts (newCmd lib []))) = {''api'', ''event'', ''http'', ''rpc'', ''web''}"
    by (simp add: newCmd_def DefaultHandlers_def) blast
  have u: "unknown_kind m k \<longleftrightarrow> k \<noteq> [] \<and> k \<notin> dom m" for m :: "string \<rightharpoonup> 'f" and k
    by (auto simp add: unknown_kind_def)
  have bad: "fst (Before lib (newCmd lib []) ctx w) = Exited 1"
    if "(ctx ''router'' \<noteq> [] \<and> ctx ''router'' \<notin> {''registry'', ''static''})
        \<or> (ctx ''resolver'' \<noteq> [] \<and> ctx ''resolver'' \<notin> {''grpc'', ''host'', ''path'', ''vpath''})
        \<or> (ctx ''handler'' \<noteq> [] \<and> ctx ''handler'' \<notin> {''api'', ''event'', ''http'', ''rpc'', ''web''})"
  proof -
    from that have "unknown_kind (Routers (opts (newCmd lib []))) (ctx ''router'')
         \<or> unknown_kind (Handlers (opts (newCmd lib []))) (ctx ''handler'')
         \<or> unknown_kind (Resolvers (opts (newCmd lib []))) (ctx ''resolver'')"
      unfolding u R S H by blast
    from Before_fatal [OF this, of lib w] show ?thesis by auto
  qed
  have good: "\<exists>c'. fst (Before lib (newCmd lib []) ctx w) = Returned (None, c')"
    if "ctx ''router'' \<in> {''registry'', ''static''}
        \<and> ctx ''resolver'' \<in> {''grpc'', ''host'', ''path'', ''vpath''}
        \<and> ctx ''handler'' \<in> {''api'', ''event'', ''http'', ''rpc'', ''web''}"
  proof -
    from that have k: "\<not> unknown_kind (Routers (opts (newCmd lib []))) (ctx ''router'')"
      "\<not> unknown_kind (Handlers (opts (newCmd lib []))) (ctx ''handler'')"
      "\<not> unknown_kind (Resolvers (opts (newCmd lib []))) (ctx ''resolver'')"
      unfolding u R S H by simp_all
    from Before_success [OF k refl refl refl refl refl refl, of lib w] show ?thesis by simp
  qed
  from R S H bad good show ?thesis by blast
qed

lemma Before_returned:
  assumes "\<not> unknown_kind (Routers (opts c)) (ctx ''router'')"
    and "\<not> unknown_kind (Handlers (opts c)) (ctx ''handler'')"
    and "\<not> unknown_kind (Resolvers (opts c)) (ctx ''resolver'')"
    and "rs = chosen (vpath_NewResolver lib) (Resolvers (opts c)) (ctx ''resolver'') (resolver_options_of ctx)"
    and "rt = chosen (registry_NewRouter lib) (Routers (opts c)) (ctx ''router'') [WithResolver rs]"
    and "hdlr = chosen (rpc_NewHandler lib) (Handlers (opts c)) (ctx ''handler'') [WithRouter rt]"
  shows "new_calls w (snd (Before lib c ctx w)) =
              [NewResolver_call (resolver_options_of ctx) rs,
               NewRouter_call [WithResolver rs] rt,
               NewHandler_call [WithRouter rt] hdlr,
               NewServer_call (address_of ctx) (httpServer_NewServer lib (address_of ctx)),
               Handle_call ''/'' (CorsMiddleware hdlr)]"
    and "outcome_server (Before lib c ctx w) =
           (Returned (None, Some (Handle lib (httpServer_NewServer lib (address_of ctx)) ''/''
              (CorsMiddleware hdlr))), snd (Before lib c ctx w))"
  using Before_success [OF assms(1,2,3) refl refl refl refl refl refl, of lib w] assms(4,5,6)
  by (simp_all add: new_calls_append outcome_server_def)

section \<open>Properties of Action\<close>

lemma Action_start_error:
  assumes "Server (opts c) = Some srv" and "Start lib srv = (Some e, srv')"
  shows "Action lib c ctx w =
           (Returned (Some e, c\<lparr>opts := (opts c)\<lparr>Server := Some srv'\<rparr>\<rparr>),
            w\<lparr>calls := calls w @ [Start_call]\<rparr>)"
  using assms by (simp add: Action_def called_def)

text \<open>
  C6: when \<^verbatim>\<open>Start\<close> returns an error, \<^verbatim>\<open>Action\<close> returns that same error at once:
  \<^verbatim>\<open>Start\<close> is its only call (no \<^verbatim>\<open>signal.Notify\<close>, no receive, no \<^verbatim>\<open>Stop\<close>) and the
  pending signals are left untouched.
\<close>

theorem start_error_propagates:
  assumes "Server (opts c) = Some srv" and "Start lib srv = (Some e, srv')"
  shows "Action lib c ctx w =
           (Returned (Some e, c\<lparr>opts := (opts c)\<lparr>Server := Some srv'\<rparr>\<rparr>),
            w\<lparr>calls := calls w @ [Start_call]\<rparr>)
       \<and> new_calls w (snd (Action lib c ctx w)) = [Start_call]
       \<and> pending (snd (Action lib c ctx w)) = pending w"
  using Action_start_error [OF assms, of ctx w] by (simp add: new_calls_append)







section \<open>Before and Action together\<close>

text \<open>
  C8, as the code has it: \<^verbatim>\<open>Before\<close> has no error path. It never returns a non-nil
  error; when the three kinds resolve it returns nil with the server constructed on the
  address string as configured, unvalidated; an address the server cannot listen on
  shows only as the error of \<^verbatim>\<open>Start\<close>, which \<^verbatim>\<open>Action\<close> returns.
\<close>

theorem assembly_returns_no_error:
  "fst (Before lib c ctx w) \<noteq> Returned (Some e, c')
   \<and> (\<not> unknown_kind (Routers (opts c)) (ctx ''router'')
      \<and> \<not> unknown_kind (Handlers (opts c)) (ctx ''handler'')
      \<and> \<not> unknown_kind (Resolvers (opts c)) (ctx ''resolver'') \<longrightarrow>
        (\<exists>h. outcome_server (Before lib c ctx w) =
                (Returned (None, Some (Handle lib (httpServer_NewServer lib (address_of ctx)) ''/'' h)),
                 snd (Before lib c ctx w))))
   \<and> (\<forall>c1 w1 srv e1 srv'.
        Before lib c ctx w = (Returned (None, c1), w1) \<and> Server (opts c1) = Some srv
        \<and> Start lib srv = (Some e1, srv') \<longrightarrow>
        fst (Action lib c1 ctx w1) = Returned (Some e1, c1\<lparr>opts := (opts c1)\<lparr>Server := Some srv'\<rparr>\<rparr>))"
proof -
  have 1: "fst (Before lib c ctx w) \<noteq> Returned (Some e, c')"
    using surjective_pairing [of "Before lib c ctx w"]
  proof (cases rule: Before_shapes)
    case (fatal msg)
    then show ?thesis by simp
  next
    case (returned rs rt hdlr)
    then show ?thesis by simp
  qed
  have 2: "\<exists>h. outcome_server (Before lib c ctx w) =
                (Returned (None, Some (Handle lib (httpServer_NewServer lib (address_of ctx)) ''/'' h)),
                 snd (Before lib c ctx w))"
    if "\<not> unknown_kind (Routers (opts c)) (ctx ''router'')"
      "\<not> unknown_kind (Handlers (opts c)) (ctx ''handler'')"
      "\<not> unknown_kind (Resolvers (opts c)) (ctx ''resolver'')"
    using Before_returned(2) [OF that refl refl refl] by blast
  have 3: "fst (Action lib c1 ctx w1) = Returned (Some e1, c1\<lparr>opts := (opts c1)\<lparr>Server := Some srv'\<rparr>\<rparr>)"
    if "Server (opts c1) = Some srv" "Start lib srv = (Some e1, srv')" for c1 w1 srv e1 srv'
    using Action_start_error [OF that] by simp
  from 1 2 3 show ?thesis by blast
qed

section \<open>Runs on the stubs\<close>

lemma default_ctx_values:
  "default_ctx ''server_address'' = '':8080''" "default_ctx ''namespace'' = ''go.micro''"
  "default_ctx ''router'' = ''registry''" "default_ctx ''resolver'' = ''vpath''"
  "default_ctx ''handler'' = ''rpc''"
  by (simp_all add: default_ctx_def context_of_def DefaultFlags_def)

lemma empty_kinds_ctx_values:
  "empty_kinds_ctx ''server_address'' = '':8080''" "empty_kinds_ctx ''namespace'' = ''go.micro''"
  "empty_kinds_ctx ''router'' = []" "empty_kinds_ctx ''resolver'' = []"
  "empty_kinds_ctx ''handler'' = []"
  by (simp_all add: empty_kinds_ctx_def context_of_def DefaultFlags_def)

lemma api_foo_ctx_values:
  "api_foo_ctx ''server_address'' = '':8080''" "api_foo_ctx ''namespace'' = ''foo''"
  "api_foo_ctx ''router'' = ''registry''" "api_foo_ctx ''resolver'' = ''vpath''"
  "api_foo_ctx ''handler'' = ''api''"
  by (simp_all add: api_foo_ctx_def context_of_def DefaultFlags_def)

lemma no_address_ctx_values:
  "no_address_ctx ''server_address'' = []" "no_address_ctx ''namespace'' = ''go.micro''"
  "no_address_ctx ''router'' = ''registry''" "no_address_ctx ''resolver'' = ''vpath''"
  "no_address_ctx ''handler'' = ''rpc''"
  by (simp_all add: no_address_ctx_def context_of_def DefaultFlags_def)

lemma custom_address_ctx_values:
  "custom_address_ctx ''server_address'' = ''127.0.0.1:9090''"
  "custom_address_ctx ''namespace'' = ''go.micro''"
  "custom_address_ctx ''router'' = ''registry''" "custom_address_ctx ''resolver'' = ''vpath''"
  "custom_address_ctx ''handler'' = ''rpc''"
  by (simp_all add: custom_address_ctx_def context_of_def DefaultFlags_def)

lemma no_port_ctx_values:
  "no_port_ctx ''server_address'' = ''no-port''" "no_port_ctx ''namespace'' = ''go.micro''"
  "no_port_ctx ''router'' = ''registry''" "no_port_ctx ''resolver'' = ''vpath''"
  "no_port_ctx ''handler'' = ''rpc''"
  by (simp_all add: no_port_ctx_def context_of_def DefaultFlags_def)

lemma bare_cmd_registries:
  "Routers (opts bare_cmd) = Map.empty" "Resolvers (opts bare_cmd) = Map.empty"
  "Handlers (opts bare_cmd) = Map.empty"
  by (simp_all add: bare_cmd_def)

lemma stub_cmd_lookups:
  "Routers (opts stub_cmd) ''registry'' = Some (StubRouter ''registry'')"
  "Resolvers (opts stub_cmd) ''vpath'' = Some (StubResolver ''vpath'')"
  "Handlers (opts stub_cmd) ''rpc'' = Some (stub_handler ''rpc'')"
  "Handlers (opts stub_cmd) ''api'' = Some (stub_handler ''api'')"
  by (simp_all add: stub_cmd_Routers stub_cmd_Resolvers stub_cmd_Handlers DefaultRouters_def
      DefaultResolvers_def DefaultHandlers_def stub_lib_def)

lemma stub_lib_fields:
  "registry_NewRouter stub_lib = StubRouter ''registry''"
  "vpath_NewResolver stub_lib = StubResolver ''vpath''"
  "rpc_NewHandler stub_lib = stub_handler ''rpc''"
  "httpServer_NewServer stub_lib a = \<lparr>srv_address = a, srv_routes = [], srv_listening = False\<rparr>"
  "Handle stub_lib srv pattern h = srv\<lparr>srv_routes := srv_routes srv @ [(pattern, h)]\<rparr>"
  "Start stub_lib = stub_Start" "Stop stub_lib = stub_Stop"
  by (simp_all add: stub_lib_def)

theorem default_registry_kinds_witness:
  "dom (Routers (opts stub_cmd)) = {''registry'', ''static''}
   \<and> context_of DefaultFlags [(''resolver'', ''dns'')] ''resolver'' \<noteq> []
   \<and> context_of DefaultFlags [(''resolver'', ''dns'')] ''resolver'' \<notin> {''grpc'', ''host'', ''path'', ''vpath''}
   \<and> fst (Before stub_lib stub_cmd (context_of DefaultFlags [(''resolver'', ''dns'')]) (world0 [])) = Exited 1
   \<and> default_ctx ''router'' \<in> {''registry'', ''static''}
   \<and> default_ctx ''resolver'' \<in> {''grpc'', ''host'', ''path'', ''vpath''}
   \<and> default_ctx ''handler'' \<in> {''api'', ''event'', ''http'', ''rpc'', ''web''}
   \<and> fst (outcome_server (Before stub_lib stub_cmd default_ctx (world0 []))) =
       Returned (None, Some \<lparr>srv_address = '':8080'',
          srv_routes = [(''/'', CorsMiddleware (stub_handler ''rpc''
             [WithRouter (StubRouter ''registry'' [WithResolver (StubResolver ''vpath''
                [WithNamespace (StaticNamespace ''go.micro''), WithHandler ''rpc''])])]))],
          srv_listening = False\<rparr>)"
proof -
  have d: "context_of DefaultFlags [(''resolver'', ''dns'')] ''resolver'' = ''dns''"
    by (simp add: context_of_def)
  have k: "\<not> unknown_kind (Routers (opts stub_cmd)) (default_ctx ''router'')"
    "\<not> unknown_kind (Handlers (opts stub_cmd)) (default_ctx ''handler'')"
    "\<not> unknown_kind (Resolvers (opts stub_cmd)) (default_ctx ''resolver'')"
    by (simp_all add: unknown_kind_def default_ctx_values stub_cmd_lookups)
  note run = Before_returned [where lib = stub_lib and w = "world0 []", OF k refl refl refl]
  from default_registry_kinds [where lib = stub_lib and w = "world0 []"
      and ctx = "context_of DefaultFlags [(''resolver'', ''dns'')]"]
    default_registry_kinds [where lib = stub_lib and w = "world0 []" and ctx = default_ctx]
    run(2) d
  show ?thesis
    by (simp add: stub_cmd_def [symmetric] default_ctx_values stub_cmd_lookups chosen_def
        resolver_options_of_def address_of_def stub_lib_fields)
qed

lemma no_port_result:
  "fst (Before stub_lib stub_cmd no_port_ctx (world0 [])) = Returned (None, no_port_cmd)"
proof -
  have k: "\<not> unknown_kind (Routers (opts stub_cmd)) (no_port_ctx ''router'')"
    "\<not> unknown_kind (Handlers (opts stub_cmd)) (no_port_ctx ''handler'')"
    "\<not> unknown_kind (Resolvers (opts stub_cmd)) (no_port_ctx ''resolver'')"
    by (simp_all add: unknown_kind_def no_port_ctx_values stub_cmd_lookups)
  from Before_success [where lib = stub_lib and w = "world0 []", OF k refl refl refl refl refl refl]
  show ?thesis
    by (simp add: no_port_ctx_values stub_cmd_lookups chosen_def resolver_options_of_def
        address_of_def stub_lib_fields no_port_cmd_def no_port_server_def)
qed

lemma no_port_run:
  "Before stub_lib stub_cmd no_port_ctx (world0 []) =
     (Returned (None, no_port_cmd), snd (Before stub_lib stub_cmd no_port_ctx (world0 [])))"
  by (simp add: prod_eq_iff no_port_result)

lemma no_port_start:
  "Start stub_lib no_port_server =
     (Some ''listen tcp: address no-port: missing port in address'', no_port_server)"
  by (simp add: stub_lib_fields stub_Start_def no_port_server_def)

theorem malformed_address_counterexample:
  "fst (Before stub_lib stub_cmd no_port_ctx (world0 [])) = Returned (None, no_port_cmd)
   \<and> Server (opts no_port_cmd) = Some no_port_server
   \<and> srv_address no_port_server = ''no-port''
   \<and> fst (Start stub_lib no_port_server) = Some ''listen tcp: address no-port: missing port in address''"
  by (simp add: no_port_result no_port_start) (simp add: no_port_cmd_def no_port_server_def)

theorem assembly_returns_no_error_witness:
  "\<not> unknown_kind (Routers (opts stub_cmd)) (no_port_ctx ''router'')
   \<and> \<not> unknown_kind (Handlers (opts stub_cmd)) (no_port_ctx ''handler'')
   \<and> \<not> unknown_kind (Resolvers (opts stub_cmd)) (no_port_ctx ''resolver'')
   \<and> fst (outcome_server (Before stub_lib stub_cmd no_port_ctx (world0 []))) =
       Returned (None, Some no_port_server)
   \<and> fst (Action stub_lib no_port_cmd no_port_ctx (snd (Before stub_lib stub_cmd no_port_ctx (world0 [])))) =
       Returned (Some ''listen tcp: address no-port: missing port in address'', no_port_cmd)"
proof -
  have k: "\<not> unknown_kind (Routers (opts stub_cmd)) (no_port_ctx ''router'')"
    "\<not> unknown_kind (Handlers (opts stub_cmd)) (no_port_ctx ''handler'')"
    "\<not> unknown_kind (Resolvers (opts stub_cmd)) (no_port_ctx ''resolver'')"
    by (simp_all add: unknown_kind_def no_port_ctx_values stub_cmd_lookups)
  have s: "Server (opts no_port_cmd) = Some no_port_server"
    by (simp add: no_port_cmd_def)
  have c: "no_port_cmd\<lparr>opts := (opts no_port_cmd)\<lparr>Server := Some no_port_server\<rparr>\<rparr> = no_port_cmd"
    by (simp add: no_port_cmd_def)
  note t = assembly_returns_no_error [where lib = stub_lib and c = stub_cmd and ctx = no_port_ctx
      and w = "world0 []"]
  from t [THEN conjunct2, THEN conjunct2, rule_format, OF conjI, OF no_port_run conjI, OF s no_port_start]
  have a: "fst (Action stub_lib no_port_cmd no_port_ctx
               (snd (Before stub_lib stub_cmd no_port_ctx (world0 [])))) =
       Returned (Some ''listen tcp: address no-port: missing port in address'', no_port_cmd)"
    by (simp add: c)
  have b: "fst (outcome_server (Before stub_lib stub_cmd no_port_ctx (world0 []))) =
       Returned (None, Some no_port_server)"
    by (simp add: outcome_server_def no_port_result s)
  from k a b show ?thesis by simp
qed

lemma stub_server_cmd_Server:
  "Server (opts (stub_server_cmd a)) = Some \<lparr>srv_address = a, srv_routes = [], srv_listening = False\<rparr>"
  by (simp add: stub_server_cmd_def)

theorem start_error_propagates_witness:
  "Server (opts (stub_server_cmd ''no-port'')) =
     Some \<lparr>srv_address = ''no-port'', srv_routes = [], srv_listening = False\<rparr>
   \<and> Start stub_lib \<lparr>srv_address = ''no-port'', srv_routes = [], srv_listening = False\<rparr> =
       (Some ''listen tcp: address no-port: missing port in address'',
        \<lparr>srv_address = ''no-port'', srv_routes = [], srv_listening = False\<rparr>)
   \<and> Action stub_lib (stub_server_cmd ''no-port'') default_ctx (world0 [SIGTERM]) =
       (Returned (Some ''listen tcp: address no-port: missing port in address'',
                  stub_server_cmd ''no-port''),
        \<lparr>log_output = [], calls = [Start_call], pending = [SIGTERM]\<rparr>)"
proof -
  have st: "Start stub_lib \<lparr>srv_address = ''no-port'', srv_routes = [], srv_listening = False\<rparr> =
       (Some ''listen tcp: address no-port: missing port in address'',
        \<lparr>srv_address = ''no-port'', srv_routes = [], srv_listening = False\<rparr>)"
    by (simp add: stub_lib_fields stub_Start_def)
  from start_error_propagates [where ctx = default_ctx and w = "world0 [SIGTERM]",
      OF stub_server_cmd_Server st] st
  show ?thesis
    by (simp add: stub_server_cmd_def world0_def)
qed

theorem empty_kind_uses_default_witness:
  "empty_kinds_ctx ''router'' = []
   \<and> Routers (opts bare_cmd) ''registry'' = None
   \<and> selects (rpc_NewHandler stub_lib) (Handlers (opts bare_cmd)) (empty_kinds_ctx ''handler'')
        (stub_handler ''rpc'')
   \<and> selects (vpath_NewResolver stub_lib) (Resolvers (opts bare_cmd)) (empty_kinds_ctx ''resolver'')
        (StubResolver ''vpath'')
   \<and> new_calls (world0 []) (snd (Before stub_lib bare_cmd empty_kinds_ctx (world0 []))) =
       [NewResolver_call [WithNamespace (StaticNamespace ''go.micro'')]
          (StubResolver ''vpath'' [WithNamespace (StaticNamespace ''go.micro'')]),
        NewRouter_call [WithResolver (StubResolver ''vpath'' [WithNamespace (StaticNamespace ''go.micro'')])]
          (StubRouter ''registry''
             [WithResolver (StubResolver ''vpath'' [WithNamespace (StaticNamespace ''go.micro'')])]),
        NewHandler_call
          [WithRouter (StubRouter ''registry''
             [WithResolver (StubResolver ''vpath'' [WithNamespace (StaticNamespace ''go.micro'')])])]
          (stub_handler ''rpc''
             [WithRouter (StubRouter ''registry''
                [WithResolver (StubResolver ''vpath'' [WithNamespace (StaticNamespace ''go.micro'')])])]),
        NewServer_call '':8080'' \<lparr>srv_address = '':8080'', srv_routes = [], srv_listening = False\<rparr>,
        Handle_call ''/'' (CorsMiddleware (stub_handler ''rpc''
             [WithRouter (StubRouter ''registry''
                [WithResolver (StubResolver ''vpath'' [WithNamespace (StaticNamespace ''go.micro'')])])]))]
   \<and> outcome_server (Before stub_lib (bare_cmd\<lparr>opts := (opts bare_cmd)\<lparr>Routers := DefaultRouters stub_lib\<rparr>\<rparr>)
         empty_kinds_ctx (world0 [])) =
       outcome_server (Before stub_lib bare_cmd empty_kinds_ctx (world0 []))"
proof -
  have r: "empty_kinds_ctx ''router'' = []"
    by (simp add: empty_kinds_ctx_values)
  have h: "selects (rpc_NewHandler stub_lib) (Handlers (opts bare_cmd)) (empty_kinds_ctx ''handler'')
        (stub_handler ''rpc'')"
    by (simp add: selects_def empty_kinds_ctx_values stub_lib_fields)
  have rs: "selects (vpath_NewResolver stub_lib) (Resolvers (opts bare_cmd)) (empty_kinds_ctx ''resolver'')
        (StubResolver ''vpath'')"
    by (simp add: selects_def empty_kinds_ctx_values stub_lib_fields)
  note t = empty_kind_uses_default [where lib = stub_lib and c = bare_cmd and ctx = empty_kinds_ctx
      and w = "world0 []", OF surjective_pairing, THEN conjunct1, THEN mp, OF r]
  from t [THEN conjunct1, rule_format, OF conjI, OF h rs]
  have calls: "new_calls (world0 []) (snd (Before stub_lib bare_cmd empty_kinds_ctx (world0 []))) =
      pipeline_calls stub_lib (address_of empty_kinds_ctx) (resolver_options_of empty_kinds_ctx)
        (StubResolver ''vpath'') (registry_NewRouter stub_lib) (stub_handler ''rpc'')"
    by simp
  from t [THEN conjunct2, THEN conjunct2, rule_format, of "DefaultRouters stub_lib"]
  have same: "outcome_server (Before stub_lib
         (bare_cmd\<lparr>opts := (opts bare_cmd)\<lparr>Routers := DefaultRouters stub_lib\<rparr>\<rparr>)
         empty_kinds_ctx (world0 [])) =
       outcome_server (Before stub_lib bare_cmd empty_kinds_ctx (world0 []))"
    by simp
  from r h rs calls same show ?thesis
    by (simp add: empty_kinds_ctx_values bare_cmd_registries stub_lib_fields pipeline_calls_def Let_def
        resolver_options_of_def address_of_def)
qed

theorem handler_and_namespace_reach_resolver_witness:
  "api_foo_ctx ''handler'' \<noteq> [] \<and> api_foo_ctx ''namespace'' \<noteq> []
   \<and> selects (registry_NewRouter stub_lib) (Routers (opts stub_cmd)) (api_foo_ctx ''router'')
        (StubRouter ''registry'')
   \<and> Handlers (opts stub_cmd) (api_foo_ctx ''handler'') = Some (stub_handler ''api'')
   \<and> selects (vpath_NewResolver stub_lib) (Resolvers (opts stub_cmd)) (api_foo_ctx ''resolver'')
        (StubResolver ''vpath'')
   \<and> hd (new_calls (world0 []) (snd (Before stub_lib stub_cmd api_foo_ctx (world0 [])))) =
       NewResolver_call [WithNamespace (StaticNamespace ''foo''), WithHandler ''api'']
         (StubResolver ''vpath'' [WithNamespace (StaticNamespace ''foo''), WithHandler ''api''])"
proof -
  have h: "api_foo_ctx ''handler'' \<noteq> []" and n: "api_foo_ctx ''namespace'' \<noteq> []"
    by (simp_all add: api_foo_ctx_values)
  have rt: "selects (registry_NewRouter stub_lib) (Routers (opts stub_cmd)) (api_foo_ctx ''router'')
        (StubRouter ''registry'')"
    by (simp add: selects_def api_foo_ctx_values stub_cmd_lookups)
  have hd: "Handlers (opts stub_cmd) (api_foo_ctx ''handler'') = Some (stub_handler ''api'')"
    by (simp add: api_foo_ctx_values stub_cmd_lookups)
  have rs: "selects (vpath_NewResolver stub_lib) (Resolvers (opts stub_cmd)) (api_foo_ctx ''resolver'')
        (StubResolver ''vpath'')"
    by (simp add: selects_def api_foo_ctx_values stub_cmd_lookups)
  from handler_and_namespace_reach_resolver [where lib = stub_lib and c = stub_cmd
      and w = "world0 []", OF h n surjective_pairing, THEN conjunct1, rule_format,
      OF conjI, OF rt conjI, OF hd rs, THEN conjunct2]
    h n rt hd rs
  show ?thesis
    by (simp add: api_foo_ctx_values)
qed

theorem server_address_default_witness:
  "no_address_ctx ''server_address'' = []
   \<and> selects (registry_NewRouter stub_lib) (Routers (opts stub_cmd)) (no_address_ctx ''router'')
        (StubRouter ''registry'')
   \<and> selects (rpc_NewHandler stub_lib) (Handlers (opts stub_cmd)) (no_address_ctx ''handler'')
        (stub_handler ''rpc'')
   \<and> selects (vpath_NewResolver stub_lib) (Resolvers (opts stub_cmd)) (no_address_ctx ''resolver'')
        (StubResolver ''vpath'')
   \<and> new_calls (world0 []) (snd (Before stub_lib stub_cmd no_address_ctx (world0 []))) ! 3 =
       NewServer_call '':8080'' \<lparr>srv_address = '':8080'', srv_routes = [], srv_listening = False\<rparr>
   \<and> custom_address_ctx ''server_address'' = ''127.0.0.1:9090''
   \<and> selects (registry_NewRouter stub_lib) (Routers (opts stub_cmd)) (custom_address_ctx ''router'')
        (StubRouter ''registry'')
   \<and> selects (rpc_NewHandler stub_lib) (Handlers (opts stub_cmd)) (custom_address_ctx ''handler'')
        (stub_handler ''rpc'')
   \<and> selects (vpath_NewResolver stub_lib) (Resolvers (opts stub_cmd)) (custom_address_ctx ''resolver'')
        (StubResolver ''vpath'')
   \<and> new_calls (world0 []) (snd (Before stub_lib stub_cmd custom_address_ctx (world0 []))) ! 3 =
       NewServer_call ''127.0.0.1:9090''
         \<lparr>srv_address = ''127.0.0.1:9090'', srv_routes = [], srv_listening = False\<rparr>"
proof -
  have s1: "selects (registry_NewRouter stub_lib) (Routers (opts stub_cmd)) (no_address_ctx ''router'')
        (StubRouter ''registry'')"
    "selects (rpc_NewHandler stub_lib) (Handlers (opts stub_cmd)) (no_address_ctx ''handler'')
        (stub_handler ''rpc'')"
    "selects (vpath_NewResolver stub_lib) (Resolvers (opts stub_cmd)) (no_address_ctx ''resolver'')
        (StubResolver ''vpath'')"
    by (simp_all add: selects_def no_address_ctx_values stub_cmd_lookups)
  have s2: "selects (registry_NewRouter stub_lib) (Routers (opts stub_cmd)) (custom_address_ctx ''router'')
        (StubRouter ''registry'')"
    "selects (rpc_NewHandler stub_lib) (Handlers (opts stub_cmd)) (custom_address_ctx ''handler'')
        (stub_handler ''rpc'')"
    "selects (vpath_NewResolver stub_lib) (Resolvers (opts stub_cmd)) (custom_address_ctx ''resolver'')
        (StubResolver ''vpath'')"
    by (simp_all add: selects_def custom_address_ctx_values stub_cmd_lookups)
  from server_address_default [where lib = stub_lib and c = stub_cmd and ctx = no_address_ctx
      and w = "world0 []", OF surjective_pairing, THEN conjunct1, rule_format,
      OF conjI, OF s1(1) conjI, OF s1(2) s1(3), THEN conjunct2, THEN conjunct2]
  have a1: "new_calls (world0 []) (snd (Before stub_lib stub_cmd no_address_ctx (world0 []))) ! 3 =
       NewServer_call '':8080'' \<lparr>srv_address = '':8080'', srv_routes = [], srv_listening = False\<rparr>"
    by (simp add: no_address_ctx_values stub_lib_fields)
  from server_address_default [where lib = stub_lib and c = stub_cmd and ctx = custom_address_ctx
      and w = "world0 []", OF surjective_pairing, THEN conjunct1, rule_format,
      OF conjI, OF s2(1) conjI, OF s2(2) s2(3), THEN conjunct2, THEN conjunct2]
  have a2: "new_calls (world0 []) (snd (Before stub_lib stub_cmd custom_address_ctx (world0 []))) ! 3 =
       NewServer_call ''127.0.0.1:9090''
         \<lparr>srv_address = ''127.0.0.1:9090'', srv_routes = [], srv_listening = False\<rparr>"
    by (simp add: custom_address_ctx_values stub_lib_fields)
  from s1 s2 a1 a2 show ?thesis
    by (simp add: no_address_ctx_values custom_address_ctx_values)
qed





end
